theory Spec2Isabelle
  imports Complex_Main
begin

section \<open>Data model of the engine (CosmicLED.py)\<close>

text \<open>
  Python exceptions that the modelled code can raise or let through.  \<open>RuntimeError\<close>
  stands for any exception of a pattern that is not a \<open>KeyboardInterrupt\<close>.
\<close>

datatype exn = KeyboardInterrupt | AttributeError | TypeError | IndexError | RuntimeError

text \<open>
  Dynamically typed attribute values of the \<open>Config\<close> object.  \<open>PObj\<close> stands for any
  object that is not a number, a string, \<open>None\<close>, a class or a dictionary (a bound method,
  for instance); its argument only tells such objects apart.
\<close>

datatype pyval = PInt int | PFloat real | PStr string | PNone | PObj string

type_synonym rgb = "int \<times> int \<times> int"

text \<open>
  The \<open>Config\<close> object is read and written by attribute name (\<open>hasattr\<close>,
  \<open>setattr\<close>), so it is modelled by what reading each name gives: the value, or
  \<open>None\<close> when reading the name raises \<open>AttributeError\<close>.  The map holds every name that
  the object has, the names that come from its class included (its methods, \<open>__class__\<close>,
  \<open>__dict__\<close> and the like), not only the settings.
\<close>

type_synonym config = "string \<rightharpoonup> pyval"

text \<open>
  A program is a callable \<open>(pixels, config, frame)\<close> that mutates the pixel buffer in
  place and may raise: the result is the buffer as the call left it, and the exception if
  one was raised.
\<close>

type_synonym pattern = "rgb list \<Rightarrow> config \<Rightarrow> int \<Rightarrow> exn option \<times> rgb list"

text \<open>
  What the engine does to the outside world, in order: \<open>pixels.show()\<close>,
  \<open>pixels.deinit()\<close> and \<open>time.sleep(d)\<close>.
\<close>

datatype event = Show "rgb list" | Deinit | Sleep real

record stats =
  fps :: real
  frame_count :: int
  uptime :: int
  stats_current_program :: string
  last_update :: string

record engine =
  config :: config
  running :: bool
  current_program :: string
  programs :: "string \<rightharpoonup> pattern"
  stats :: stats
  pixels :: "rgb list"
  brightness :: pyval
  trace :: "event list"

section \<open>Program registry\<close>

text \<open>
  What importing one file of the scripts folder gives: an exception while loading, a
  module without \<open>animate\<close>, or a module with it.
\<close>

datatype load_result = LoadError | NoAnimate | Animate pattern

definition endswith :: "string \<Rightarrow> string \<Rightarrow> bool" where
  "endswith s suf = (length suf \<le> length s \<and> drop (length s - length suf) s = suf)"

definition startswith :: "string \<Rightarrow> string \<Rightarrow> bool" where
  "startswith s pre = (take (length pre) s = pre)"

fun load_scripts ::
  "(string \<times> load_result) list \<Rightarrow> (string \<rightharpoonup> pattern) \<Rightarrow> (string \<rightharpoonup> pattern)" where
  "load_scripts [] ps = ps"
| "load_scripts ((filename, r) # files) ps =
     load_scripts files
       (if endswith filename ''.py'' \<and> \<not> startswith filename ''__''
        then (case r of
                Animate p \<Rightarrow> ps(take (length filename - 3) filename \<mapsto> p)
              | NoAnimate \<Rightarrow> ps
              | LoadError \<Rightarrow> ps)
        else ps)"

text \<open>
  \<open>load_programs\<close> (lines 49 to 73): the built-in animation is registered first under
  \<open>cosmic\<close>, then the scripts folder is scanned if it exists (\<open>None\<close>: it does not).
  A file counts when its name ends in \<open>.py\<close> and does not start with two underscores;
  the program is named after the file without its last three characters.
\<close>

definition load_programs ::
  "pattern \<Rightarrow> (string \<times> load_result) list option \<Rightarrow> engine \<Rightarrow> engine" where
  "load_programs cosmic_animation scripts_dir e =
     (let ps = (programs e)(''cosmic'' \<mapsto> cosmic_animation)
      in e\<lparr>programs := (case scripts_dir of None \<Rightarrow> ps | Some files \<Rightarrow> load_scripts files ps)\<rparr>)"

text \<open>\<open>switch_program\<close> (lines 121 to 127): the result and the engine after the call.\<close>

definition switch_program :: "string \<Rightarrow> engine \<Rightarrow> bool \<times> engine" where
  "switch_program program_name e =
     (case programs e program_name of
        Some p \<Rightarrow>
          (True, e\<lparr>current_program := program_name,
                   stats := (stats e)\<lparr>stats_current_program := program_name\<rparr>\<rparr>)
      | None \<Rightarrow> (False, e))"

section \<open>Configuration update\<close>

text \<open>
  \<open>hasattr(obj, name)\<close> is true exactly when reading the attribute does not raise.
\<close>

definition hasattr :: "config \<Rightarrow> string \<Rightarrow> bool" where
  "hasattr c key = (case c key of None \<Rightarrow> False | Some val \<Rightarrow> True)"

text \<open>
  The loop of \<open>update_config\<close> (lines 131 to 133) over the items of the update, in
  order.  The class of the configuration object is not among the sources, so what
  \<open>setattr(self.config, key, value)\<close> does with a name that the object has is a parameter:
  \<open>setattr_error key value\<close> is the exception that the assignment raises, if any (as
  assigning a number to \<open>__class__\<close> does); when it raises none, reading \<open>key\<close> afterwards
  gives \<open>value\<close>.  An exception ends the loop: the items before it have been set, the
  items after it are not looked at.
\<close>

fun set_known ::
  "(string \<Rightarrow> pyval \<Rightarrow> exn option) \<Rightarrow> (string \<times> pyval) list \<Rightarrow> config \<Rightarrow> exn option \<times> config" where
  "set_known setattr_error [] c = (None, c)"
| "set_known setattr_error ((key, val) # items) c =
     (if hasattr c key
      then (case setattr_error key val of
              Some err \<Rightarrow> (Some err, c)
            | None \<Rightarrow> set_known setattr_error items (c(key \<mapsto> val)))
      else set_known setattr_error items c)"

text \<open>
  \<open>update_config\<close> (lines 129 to 136) returns nothing; the first component of the result
  is the exception that leaves the call, if any.  An exception of the loop leaves the call
  before the brightness of the strip is set.  Reading \<open>config.BRIGHTNESS\<close> after the loop
  raises \<open>AttributeError\<close> when the object has no such attribute; the attributes set
  before stay set.
\<close>

definition update_config ::
  "(string \<Rightarrow> pyval \<Rightarrow> exn option) \<Rightarrow> (string \<times> pyval) list \<Rightarrow> engine \<Rightarrow> exn option \<times> engine" where
  "update_config setattr_error new_config e =
     (case set_known setattr_error new_config (config e) of
        (Some err, c) \<Rightarrow> (Some err, e\<lparr>config := c\<rparr>)
      | (None, c) \<Rightarrow>
          (case c ''BRIGHTNESS'' of
             None \<Rightarrow> (Some AttributeError, e\<lparr>config := c\<rparr>)
           | Some b \<Rightarrow> (None, e\<lparr>config := c, brightness := b\<rparr>)))"


section \<open>Main loop\<close>

text \<open>\<open>cleanup\<close> (lines 183 to 188): stop, fill with black, show, release the strip.\<close>

definition cleanup :: "engine \<Rightarrow> engine" where
  "cleanup e =
     (let blank = replicate (length (pixels e)) (0, 0, 0)
      in e\<lparr>running := False, pixels := blank, trace := trace e @ [Show blank, Deinit]\<rparr>)"

text \<open>
  The clock is outside the program.  Each iteration reads from it the measured
  \<open>frame_time\<close> (after \<open>show\<close>) and the time since the last fps update; \<open>sigint\<close> says
  that a \<open>KeyboardInterrupt\<close> arrives at the end of this iteration (during the sleep when
  there is one).  A \<open>KeyboardInterrupt\<close> during the program's call is a result of the
  program.
\<close>

record tick =
  frame_time :: real
  since_last :: real
  sigint :: bool

record loop_vars =
  frame :: int
  frame_times :: "real list"

text \<open>Python's \<open>round(x, 1)\<close>, on exact numbers: to one decimal, ties to even.\<close>

definition round_half_even :: "real \<Rightarrow> int" where
  "round_half_even x =
     (let f = \<lfloor>x\<rfloor>
      in if x - of_int f < 1 / 2 then f
         else if 1 / 2 < x - of_int f then f + 1
         else if even f then f else f + 1)"

definition round1 :: "real \<Rightarrow> real" where
  "round1 x = of_int (round_half_even (x * 10)) / 10"

text \<open>Lines 149 to 152: run the current program if it is registered.\<close>

definition run_program :: "engine \<Rightarrow> int \<Rightarrow> exn option \<times> engine" where
  "run_program e fr =
     (case programs e (current_program e) of
        None \<Rightarrow> (None, e)
      | Some p \<Rightarrow> (case p (pixels e) (config e) fr of (x, px) \<Rightarrow> (x, e\<lparr>pixels := px\<rparr>)))"

text \<open>The rate limiting of lines 173 to 176: the call of \<open>time.sleep\<close>, if any.\<close>

definition rate_limit :: "real \<Rightarrow> event list" where
  "rate_limit ft =
     (let target_frame_time = 1 / 60; sleep_time = target_frame_time - ft
      in if 0 < sleep_time then [Sleep sleep_time] else [])"

text \<open>Lines 157 to 170: the fps window and the statistics.\<close>

definition update_stats :: "tick \<Rightarrow> loop_vars \<Rightarrow> engine \<Rightarrow> loop_vars \<times> engine" where
  "update_stats t lv e =
     (let appended = frame_times lv @ [frame_time t];
          window = (if 30 < length appended then tl appended else appended);
          e1 = (if 1 < since_last t
                then (let avg_frame_time = sum_list window / real (length window)
                      in e\<lparr>stats := (stats e)\<lparr>fps := (if 0 < avg_frame_time
                                                       then round1 (1 / avg_frame_time) else 0)\<rparr>\<rparr>)
                else e);
          e2 = e1\<lparr>stats := (stats e1)\<lparr>frame_count := frame lv\<rparr>\<rparr>
      in (\<lparr>frame = frame lv + 1, frame_times = window\<rparr>, e2))"

text \<open>One pass through the body of the \<open>while\<close> loop.\<close>

definition iteration :: "tick \<Rightarrow> loop_vars \<Rightarrow> engine \<Rightarrow> exn option \<times> loop_vars \<times> engine" where
  "iteration t lv e =
     (case run_program e (frame lv) of
        (Some x, e1) \<Rightarrow> (Some x, lv, e1)
      | (None, e1) \<Rightarrow>
          (let e2 = e1\<lparr>trace := trace e1 @ [Show (pixels e1)]\<rparr>;
               (lv', e3) = update_stats t lv e2;
               e4 = e3\<lparr>trace := trace e3 @ rate_limit (frame_time t)\<rparr>
           in (if sigint t then Some KeyboardInterrupt else None, lv', e4)))"

text \<open>
  How \<open>run\<close> can stand after a finite number of clock readings: still in the loop,
  returned (after a \<open>KeyboardInterrupt\<close>, or because \<open>running\<close> was false), or left by
  another exception.  In the last two cases \<open>cleanup\<close> has run.
\<close>

datatype outcome = Looping loop_vars engine | Returned engine | Propagated exn engine

fun run_loop :: "tick list \<Rightarrow> loop_vars \<Rightarrow> engine \<Rightarrow> outcome" where
  "run_loop [] lv e = (if running e then Looping lv e else Returned (cleanup e))"
| "run_loop (t # ts) lv e =
     (if \<not> running e then Returned (cleanup e)
      else (case iteration t lv e of
              (None, lv', e') \<Rightarrow> run_loop ts lv' e'
            | (Some KeyboardInterrupt, lv', e') \<Rightarrow> Returned (cleanup e')
            | (Some x, lv', e') \<Rightarrow> Propagated x (cleanup e')))"

definition run :: "tick list \<Rightarrow> engine \<Rightarrow> outcome" where
  "run ts e = run_loop ts \<lparr>frame = 0, frame_times = []\<rparr> e"

text \<open>The total time asked of \<open>time.sleep\<close> in a run of events.\<close>

fun slept :: "event list \<Rightarrow> real" where
  "slept [] = 0"
| "slept (Sleep d # evs) = d + slept evs"
| "slept (ev # evs) = slept evs"

text \<open>The last frame committed to the strip, if any.\<close>

fun last_shown :: "event list \<Rightarrow> rgb list option" where
  "last_shown [] = None"
| "last_shown (Show px # evs) = (case last_shown evs of None \<Rightarrow> Some px | Some later \<Rightarrow> Some later)"
| "last_shown (ev # evs) = last_shown evs"

text \<open>The engine as a run leaves it.\<close>

definition stopped_engine :: "outcome \<Rightarrow> engine" where
  "stopped_engine out =
     (case out of Looping lv e \<Rightarrow> e | Returned e \<Rightarrow> e | Propagated x e \<Rightarrow> e)"

section \<open>Colour functions\<close>

text \<open>
  Python floats are read as real numbers: the colour functions are modelled in exact
  arithmetic, without rounding, infinities or NaN.
\<close>

text \<open>Python's \<open>a % b\<close> on numbers: the remainder has the sign of the divisor.\<close>

definition py_mod :: "real \<Rightarrow> real \<Rightarrow> real" where
  "py_mod a b = a - b * of_int \<lfloor>a / b\<rfloor>"

text \<open>Python's \<open>int(x)\<close> on a number: truncation towards zero.\<close>

definition py_int :: "real \<Rightarrow> int" where
  "py_int x = (if 0 \<le> x then \<lfloor>x\<rfloor> else \<lceil>x\<rceil>)"

text \<open>\<open>hsv_to_rgb\<close> of test_color_math.py, the fixed version, with the hue in degrees.\<close>

definition hsv_to_rgb :: "real \<Rightarrow> real \<Rightarrow> real \<Rightarrow> rgb" where
  "hsv_to_rgb h0 s v =
     (let h = py_mod h0 360;
          c = v * s;
          x = c * (1 - \<bar>py_mod (h / 60) 2 - 1\<bar>);
          m = v - c;
          (r, g, b) =
            (if h < 60 then (c, x, 0)
             else if h < 120 then (x, c, 0)
             else if h < 180 then (0, c, x)
             else if h < 240 then (0, x, c)
             else if h < 300 then (x, 0, c)
             else (c, 0, x))
      in (py_int ((r + m) * 255), py_int ((g + m) * 255), py_int ((b + m) * 255)))"

text \<open>
  \<open>CosmicLED.hsv_to_rgb\<close> scales what the standard library's \<open>colorsys.hsv_to_rgb\<close>
  returns; that function is a parameter here.
\<close>

definition CosmicLED_hsv_to_rgb ::
  "(real \<Rightarrow> real \<Rightarrow> real \<Rightarrow> real \<times> real \<times> real) \<Rightarrow> real \<Rightarrow> real \<Rightarrow> real \<Rightarrow> rgb" where
  "CosmicLED_hsv_to_rgb colorsys_hsv_to_rgb h s v =
     (case colorsys_hsv_to_rgb h s v of
        (r, g, b) \<Rightarrow> (py_int (r * 255), py_int (g * 255), py_int (b * 255)))"

text \<open>
  Python's \<open>pow(x, y)\<close> on floats, where it gives a real number: \<open>None\<close> stands for the
  \<open>ZeroDivisionError\<close> of a zero base with a negative exponent and for the complex result
  of a negative base with a fractional exponent.
\<close>

definition float_pow :: "real \<Rightarrow> real \<Rightarrow> real option" where
  "float_pow x y =
     (if 0 < x then Some (x powr y)
      else if x = 0 then (if y < 0 then None else if y = 0 then Some 1 else Some 0)
      else if of_int \<lfloor>y\<rfloor> = y then Some (power_int x \<lfloor>y\<rfloor>)
      else None)"

definition gamma_correct :: "real \<Rightarrow> real \<Rightarrow> real option" where
  "gamma_correct val gamma = map_option (\<lambda>p. 255 * p) (float_pow (val / 255) gamma)"

section \<open>Coordinate mapper\<close>

datatype topology = Progressive | Serpentine

record geometry =
  width :: nat
  height :: nat
  wiring :: topology

definition pixel_count :: "geometry \<Rightarrow> nat" where
  "pixel_count g = width g * height g"

text \<open>
  Modelled from the spec: \<open>xy_to_index\<close> of the configuration class, which is not among
  the sources (only its callers and tests are).  Section 4.1: progressive wiring gives
  \<open>y*width + x\<close>, serpentine wiring gives \<open>y*width + (x if y even else width-1-x)\<close>, and
  out-of-range input signals an out-of-bounds condition, here \<open>None\<close>.
\<close>

definition xy_to_index :: "nat \<Rightarrow> nat \<Rightarrow> geometry \<Rightarrow> nat option" where
  "xy_to_index x y g =
     (if x < width g \<and> y < height g
      then Some (case wiring g of
                   Progressive \<Rightarrow> y * width g + x
                 | Serpentine \<Rightarrow> y * width g + (if even y then x else width g - 1 - x))
      else None)"

text \<open>
  Modelled from the spec: \<open>index_to_xy\<close> of the configuration class, which is not among
  the sources.  Section 4.1 asks for the exact inverse of \<open>xy_to_index\<close>: the row is the
  quotient by the width, the column the remainder, reversed on the odd rows of a
  serpentine matrix; an index that is not below the pixel count gives \<open>None\<close>.
\<close>

definition index_to_xy :: "nat \<Rightarrow> geometry \<Rightarrow> (nat \<times> nat) option" where
  "index_to_xy i g =
     (if i < pixel_count g
      then (let y = i div width g; c = i mod width g
            in Some (case wiring g of
                       Progressive \<Rightarrow> c
                     | Serpentine \<Rightarrow> (if even y then c else width g - 1 - c), y))
      else None)"

section \<open>Patterns that write through the coordinate mapping\<close>

text \<open>
  Item assignment \<open>pixels[i] = c\<close>: a negative index counts from the end, an index out
  of range raises \<open>IndexError\<close>.
\<close>

definition setitem :: "'a list \<Rightarrow> int \<Rightarrow> 'a \<Rightarrow> exn + 'a list" where
  "setitem xs i c =
     (if 0 \<le> i \<and> i < int (length xs) then Inr (xs[nat i := c])
      else if i < 0 \<and> - int (length xs) \<le> i then Inr (xs[nat (int (length xs) + i) := c])
      else Inl IndexError)"

text \<open>
  The buffer of a frame being painted, together with the indices that the pattern has
  assigned to so far, as the pattern wrote them.
\<close>

type_synonym painted = "rgb list \<times> int list"

definition assign :: "painted \<Rightarrow> int \<Rightarrow> rgb \<Rightarrow> exn + painted" where
  "assign buf i c =
     (case setitem (fst buf) i c of
        Inl err \<Rightarrow> Inl err
      | Inr px \<Rightarrow> Inr (px, snd buf @ [i]))"

text \<open>A \<open>for\<close> loop whose body may raise.\<close>

fun for_each :: "('s \<Rightarrow> 'a \<Rightarrow> exn + 's) \<Rightarrow> 'a list \<Rightarrow> 's \<Rightarrow> exn + 's" where
  "for_each body [] s = Inr s"
| "for_each body (a # as) s =
     (case body s a of Inl err \<Rightarrow> Inl err | Inr s' \<Rightarrow> for_each body as s')"

text \<open>\<open>for y in range(height): for x in range(width)\<close>: the coordinates in scan order.\<close>

definition scan :: "int \<Rightarrow> int \<Rightarrow> (int \<times> int) list" where
  "scan w h = concat (map (\<lambda>y. map (\<lambda>x. (x, y)) [0..w - 1]) [0..h - 1])"

text \<open>
  The patterns get the mapping and the colours from the configuration object, whose class
  is not among the sources: \<open>mapper x y\<close> is what \<open>config.xy_to_index(x, y)\<close> returns
  (\<open>None\<close> is Python's \<open>None\<close>), \<open>colour x y\<close> the colour computed for that pixel in this
  frame, \<open>w\<close> and \<open>h\<close> the configured width and height.
\<close>

text \<open>animations/cosmic.py: the index is compared with the bounds of the buffer.\<close>

definition cosmic_pixel ::
  "(int \<Rightarrow> int \<Rightarrow> int option) \<Rightarrow> (int \<Rightarrow> int \<Rightarrow> rgb) \<Rightarrow> painted \<Rightarrow> int \<times> int \<Rightarrow> exn + painted" where
  "cosmic_pixel mapper colour buf xy =
     (case xy of (x, y) \<Rightarrow>
        (case mapper x y of
           None \<Rightarrow> Inl TypeError
         | Some idx \<Rightarrow>
             if 0 \<le> idx \<and> idx < int (length (fst buf)) then assign buf idx (colour x y)
             else Inr buf))"

definition cosmic_animate ::
  "int \<Rightarrow> int \<Rightarrow> (int \<Rightarrow> int \<Rightarrow> int option) \<Rightarrow> (int \<Rightarrow> int \<Rightarrow> rgb) \<Rightarrow> rgb list \<Rightarrow> exn + painted" where
  "cosmic_animate w h mapper colour buffer =
     for_each (cosmic_pixel mapper colour) (scan w h) (buffer, [])"

text \<open>scripts/waves.py: a \<open>None\<close> index is skipped, any other is assigned to.\<close>

definition waves_pixel ::
  "(int \<Rightarrow> int \<Rightarrow> int option) \<Rightarrow> (int \<Rightarrow> int \<Rightarrow> rgb) \<Rightarrow> painted \<Rightarrow> int \<times> int \<Rightarrow> exn + painted" where
  "waves_pixel mapper colour buf xy =
     (case xy of (x, y) \<Rightarrow>
        (case mapper x y of
           None \<Rightarrow> Inr buf
         | Some i \<Rightarrow> assign buf i (colour x y)))"

definition waves_animate ::
  "int \<Rightarrow> int \<Rightarrow> (int \<Rightarrow> int \<Rightarrow> int option) \<Rightarrow> (int \<Rightarrow> int \<Rightarrow> rgb) \<Rightarrow> rgb list \<Rightarrow> exn + painted" where
  "waves_animate w h mapper colour buffer =
     for_each (waves_pixel mapper colour) (scan w h) (buffer, [])"

text \<open>An index that is inside a buffer of \<open>n\<close> pixels.\<close>

definition in_buffer :: "nat \<Rightarrow> int \<Rightarrow> bool" where
  "in_buffer n i = (0 \<le> i \<and> i < int n)"

text \<open>A colour channel that the strip accepts.\<close>

definition channel_ok :: "int \<Rightarrow> bool" where
  "channel_ok k = (0 \<le> k \<and> k \<le> 255)"

section \<open>Concrete engines and inputs\<close>

definition fill_red :: pattern where
  "fill_red px cfg fr = (None, map (\<lambda>c. (255, 0, 0)) px)"

definition always_raises :: pattern where
  "always_raises px cfg fr = (Some RuntimeError, px)"

definition demo :: engine where
  "demo =
     \<lparr>config = [''BRIGHTNESS'' \<mapsto> PFloat (1 / 2), ''SPEED'' \<mapsto> PFloat 1, ''LED_COUNT'' \<mapsto> PInt 2],
      running = True,
      current_program = ''cosmic'',
      programs = [''cosmic'' \<mapsto> fill_red, ''broken'' \<mapsto> always_raises],
      stats = \<lparr>fps = 0, frame_count = 0, uptime = 0, stats_current_program = ''cosmic'',
               last_update = ''2025-01-01T00:00:00''\<rparr>,
      pixels = [(1, 2, 3), (4, 5, 6)],
      brightness = PFloat (1 / 2),
      trace = []\<rparr>"

definition broken_engine :: engine where
  "broken_engine = demo\<lparr>current_program := ''broken''\<rparr>"

definition stale_engine :: engine where
  "stale_engine = demo\<lparr>current_program := ''gone''\<rparr>"

definition on_time :: tick where
  "on_time = \<lparr>frame_time = 1 / 120, since_last = 0, sigint = False\<rparr>"

text \<open>A clock reading during which Ctrl-C is pressed.\<close>

definition ctrl_c :: tick where
  "ctrl_c = \<lparr>frame_time = 1 / 120, since_last = 0, sigint = True\<rparr>"





text \<open>Coordinate mappings used as inputs of the two patterns, and a constant colour.\<close>

definition shifted_mapper :: "int \<Rightarrow> int \<Rightarrow> int option" where
  "shifted_mapper x y = Some (x + 1)"

definition negative_mapper :: "int \<Rightarrow> int \<Rightarrow> int option" where
  "negative_mapper x y = Some (x - 2)"

definition none_mapper :: "int \<Rightarrow> int \<Rightarrow> int option" where
  "none_mapper x y = None"

definition far_mapper :: "int \<Rightarrow> int \<Rightarrow> int option" where
  "far_mapper x y = Some (if x = 0 then 5 else 1)"

definition sparse_mapper :: "int \<Rightarrow> int \<Rightarrow> int option" where
  "sparse_mapper x y = (if x = 0 then None else Some 0)"

definition grey :: "int \<Rightarrow> int \<Rightarrow> rgb" where
  "grey x y = (9, 9, 9)"

text \<open>The 4 by 4 serpentine matrix of the specification's examples.\<close>

definition panel :: geometry where
  "panel = \<lparr>width = 4, height = 4, wiring = Serpentine\<rparr>"

section \<open>The main loop: a raising program, an unregistered program, shutdown, rate limiting\<close>

lemma run_program_trace: "trace (snd (run_program e fr)) = trace e"
  by (simp add: run_program_def split: option.splits prod.splits)

lemma update_stats_keeps:
  "trace (snd (update_stats t lv e)) = trace e"
  "pixels (snd (update_stats t lv e)) = pixels e"
  "current_program (snd (update_stats t lv e)) = current_program e"
  "programs (snd (update_stats t lv e)) = programs e"
  "frame_count (stats (snd (update_stats t lv e))) = frame lv"
  "frame (fst (update_stats t lv e)) = frame lv + 1"
  by (simp_all add: update_stats_def Let_def)

lemma slept_rate_limit: "slept (rate_limit ft) = max 0 (1 / 60 - ft)"
  by (simp add: rate_limit_def Let_def)

text \<open>An iteration whose program call does not raise runs to its end.\<close>

lemma iteration_completed:
  assumes "run_program e (frame lv) = (None, e1)"
  shows "iteration t lv e =
           (if sigint t then Some KeyboardInterrupt else None,
            fst (update_stats t lv (e1\<lparr>trace := trace e1 @ [Show (pixels e1)]\<rparr>)),
            (snd (update_stats t lv (e1\<lparr>trace := trace e1 @ [Show (pixels e1)]\<rparr>)))
              \<lparr>trace := trace e @ [Show (pixels e1)] @ rate_limit (frame_time t)\<rparr>)"
proof -
  have tr: "trace e1 = trace e"
    using run_program_trace [of e "frame lv"] assms by simp
  show ?thesis
    by (simp add: iteration_def assms Let_def split_beta update_stats_keeps tr)
qed

text \<open>
  Claim C1, as amended.  When the active program raises an exception other than
  \<open>KeyboardInterrupt\<close> during its call for a frame, the loop does not catch it: \<open>run\<close>
  stops in that iteration, \<open>cleanup\<close> runs and the exception leaves \<open>run\<close>.  No other
  program is substituted (the active program stays the same) and the statistics,
  \<open>frame_count\<close> among them, are as they were before that iteration.
\<close>

theorem raising_program_ends_run:
  assumes "running e" and "programs e (current_program e) = Some p"
    and "p (pixels e) (config e) (frame lv) = (Some x, px)" and "x \<noteq> KeyboardInterrupt"
  shows "run_loop (t # ts) lv e = Propagated x (cleanup (e\<lparr>pixels := px\<rparr>)) \<and>
         current_program (cleanup (e\<lparr>pixels := px\<rparr>)) = current_program e \<and>
         stats (cleanup (e\<lparr>pixels := px\<rparr>)) = stats e \<and>
         \<not> running (cleanup (e\<lparr>pixels := px\<rparr>))"
proof -
  have "iteration t lv e = (Some x, lv, e\<lparr>pixels := px\<rparr>)"
    using assms by (simp add: iteration_def run_program_def)
  then show ?thesis
    using assms by (cases x) (simp_all add: cleanup_def Let_def)
qed

theorem raising_program_ends_run_witness:
  "running broken_engine \<and>
   programs broken_engine (current_program broken_engine) = Some always_raises \<and>
   always_raises (pixels broken_engine) (config broken_engine) 5 =
     (Some RuntimeError, pixels broken_engine) \<and>
   RuntimeError \<noteq> KeyboardInterrupt \<and>
   run_loop [on_time, on_time] \<lparr>frame = 5, frame_times = []\<rparr> broken_engine =
     Propagated RuntimeError (cleanup broken_engine)"
  using raising_program_ends_run [of broken_engine always_raises "\<lparr>frame = 5, frame_times = []\<rparr>"
      RuntimeError "pixels broken_engine" on_time "[on_time]"]
  by (simp add: broken_engine_def demo_def always_raises_def)

text \<open>
  Claim C1 as stated fails: with a program that raises on every call, three clock
  readings do not give three frames.  The run ends at the first call with the exception,
  \<open>frame_count\<close> has not advanced, and the active program is still the raising one, although
  \<open>cosmic\<close> is registered.
\<close>

theorem raising_program_counterexample:
  "programs broken_engine ''cosmic'' = Some fill_red \<and>
   run [on_time, on_time, on_time] broken_engine = Propagated RuntimeError (cleanup broken_engine) \<and>
   frame_count (stats (cleanup broken_engine)) = frame_count (stats broken_engine) \<and>
   current_program (cleanup broken_engine) = ''broken''"
  by (simp add: run_def broken_engine_def demo_def always_raises_def iteration_def
      run_program_def cleanup_def Let_def)

lemma load_scripts_keeps: "k \<in> dom ps \<Longrightarrow> k \<in> dom (load_scripts files ps)"
proof (induction files arbitrary: ps)
  case Nil
  then show ?case by simp
next
  case (Cons f files)
  obtain filename r where f: "f = (filename, r)" by (cases f)
  have "k \<in> dom (if endswith filename ''.py'' \<and> \<not> startswith filename ''__''
        then (case r of
                Animate p \<Rightarrow> ps(take (length filename - 3) filename \<mapsto> p)
              | NoAnimate \<Rightarrow> ps
              | LoadError \<Rightarrow> ps)
        else ps)"
    using Cons.prems by (cases r) auto
  then show ?case
    unfolding f load_scripts.simps by (rule Cons.IH)
qed

lemma load_programs_cosmic: "programs (load_programs builtin scripts_dir e) ''cosmic'' \<noteq> None"
proof -
  have "''cosmic'' \<in> dom (programs (load_programs builtin scripts_dir e))"
    by (cases scripts_dir) (simp_all add: load_programs_def Let_def load_scripts_keeps)
  then show ?thesis by auto
qed

text \<open>
  Claim C2, as amended.  Whenever the active program name is not in the registry, the
  loop runs no program for that frame: the pixel buffer is left as it was and is still
  shown, the active name is not replaced, and the frame is counted.  The name \<open>cosmic\<close> is
  always registered by \<open>load_programs\<close>.
\<close>

theorem unregistered_program_renders_nothing:
  assumes "programs e (current_program e) = None"
  shows "run_program e fr = (None, e) \<and>
         trace (snd (snd (iteration t lv e))) =
           trace e @ [Show (pixels e)] @ rate_limit (frame_time t) \<and>
         pixels (snd (snd (iteration t lv e))) = pixels e \<and>
         current_program (snd (snd (iteration t lv e))) = current_program e \<and>
         frame_count (stats (snd (snd (iteration t lv e)))) = frame lv \<and>
         programs (load_programs builtin scripts_dir e) ''cosmic'' \<noteq> None"
proof -
  have r: "run_program e (frame lv) = (None, e)" "run_program e fr = (None, e)"
    using assms by (simp_all add: run_program_def)
  show ?thesis
    by (simp add: r(2) iteration_completed [OF r(1)] update_stats_keeps load_programs_cosmic)
qed

theorem unregistered_program_renders_nothing_witness:
  "programs stale_engine (current_program stale_engine) = None \<and>
   run_program stale_engine 0 = (None, stale_engine) \<and>
   pixels (snd (snd (iteration on_time \<lparr>frame = 0, frame_times = []\<rparr> stale_engine))) =
     [(1, 2, 3), (4, 5, 6)]"
  using unregistered_program_renders_nothing
    [of stale_engine 0 on_time "\<lparr>frame = 0, frame_times = []\<rparr>"]
  by (simp add: stale_engine_def demo_def)

text \<open>
  Claim C2 as stated fails: with the active name \<open>gone\<close> missing from a registry that
  holds \<open>cosmic\<close>, the frame shown is the buffer as it was, not what \<open>cosmic\<close> paints.
\<close>

theorem unregistered_program_counterexample:
  "programs stale_engine (current_program stale_engine) = None \<and>
   programs stale_engine ''cosmic'' = Some fill_red \<and>
   fill_red (pixels stale_engine) (config stale_engine) 0 = (None, [(255, 0, 0), (255, 0, 0)]) \<and>
   trace (snd (snd (iteration on_time \<lparr>frame = 0, frame_times = []\<rparr> stale_engine))) =
     [Show [(1, 2, 3), (4, 5, 6)], Sleep (1 / 120)]"
  by (simp add: stale_engine_def demo_def fill_red_def on_time_def iteration_def run_program_def
      update_stats_def rate_limit_def Let_def)

lemma last_shown_append_Show: "last_shown (evs @ [Show px, Deinit]) = Some px"
  by (induction evs rule: last_shown.induct) simp_all

lemma cleanup_trace:
  "trace (cleanup e) = trace e @ [Show (replicate (length (pixels e)) (0, 0, 0)), Deinit] \<and>
   last_shown (trace (cleanup e)) = Some (replicate (length (pixels e)) (0, 0, 0)) \<and>
   pixels (cleanup e) = replicate (length (pixels e)) (0, 0, 0) \<and>
   \<not> running (cleanup e)"
  by (simp add: cleanup_def Let_def last_shown_append_Show)

text \<open>Every way out of the loop goes through \<open>cleanup\<close>.\<close>

lemma run_loop_stopped_cleanup:
  "run_loop ts lv e = Returned e' \<or> run_loop ts lv e = Propagated x e' \<Longrightarrow> \<exists>e0. e' = cleanup e0"
proof (induction ts arbitrary: lv e)
  case Nil
  then show ?case by (auto split: if_splits)
next
  case (Cons t ts)
  show ?case
  proof (cases "running e")
    case False
    with Cons.prems show ?thesis by auto
  next
    case True
    obtain r lv' e1 where it: "iteration t lv e = (r, lv', e1)"
      by (cases "iteration t lv e") auto
    show ?thesis
    proof (cases r)
      case None
      with Cons.prems True it
      have "run_loop ts lv' e1 = Returned e' \<or> run_loop ts lv' e1 = Propagated x e'"
        by simp
      then show ?thesis by (rule Cons.IH)
    next
      case (Some y)
      with Cons.prems True it show ?thesis by (cases y) auto
    qed
  qed
qed

lemma run_loop_stopped_blank:
  assumes "run_loop ts lv e = Returned e' \<or> run_loop ts lv e = Propagated x e'"
  shows "(\<exists>evs. trace e' = evs @ [Show (replicate (length (pixels e')) (0, 0, 0)), Deinit]) \<and>
         last_shown (trace e') = Some (replicate (length (pixels e')) (0, 0, 0)) \<and>
         pixels e' = replicate (length (pixels e')) (0, 0, 0) \<and> \<not> running e'"
proof -
  obtain e0 where e0: "e' = cleanup e0"
    using run_loop_stopped_cleanup assms by blast
  have "trace e' = trace e0 @ [Show (replicate (length (pixels e')) (0, 0, 0)), Deinit]"
    by (simp add: e0 cleanup_def Let_def)
  then show ?thesis
    using cleanup_trace [of e0] by (auto simp: e0)
qed

lemma run_loop_interrupted:
  assumes "running e" and "fst (run_program e (frame lv)) = None" and "sigint t"
  shows "run_loop (t # rest) lv e = Returned (cleanup (snd (snd (iteration t lv e))))"
proof -
  obtain e1 where r: "run_program e (frame lv) = (None, e1)"
    using assms(2) by (cases "run_program e (frame lv)") auto
  show ?thesis
    using assms(1,3) by (simp add: iteration_completed [OF r])
qed

text \<open>
  Claim C8.  On shutdown the engine blanks the buffer and shows one final all-zero frame
  before it releases the strip.  Whenever \<open>run\<close> has left its loop, by Ctrl-C, because
  \<open>running\<close> was false or by an exception, the events end with an all-zero frame followed by
  the release, so the last frame shown is all zeros.  Ctrl-C during an iteration that showed
  its frame makes \<open>run\<close> return in this way, and so does a false \<open>running\<close>.
\<close>

theorem shutdown_commits_blank_frame:
  "(run_loop ts lv e = Returned e' \<or> run_loop ts lv e = Propagated x e' \<longrightarrow>
      (\<exists>evs. trace e' = evs @ [Show (replicate (length (pixels e')) (0, 0, 0)), Deinit]) \<and>
      last_shown (trace e') = Some (replicate (length (pixels e')) (0, 0, 0)) \<and>
      pixels e' = replicate (length (pixels e')) (0, 0, 0) \<and> \<not> running e') \<and>
   (running e \<and> fst (run_program e (frame lv)) = None \<and> sigint t \<longrightarrow>
      run_loop (t # rest) lv e = Returned (cleanup (snd (snd (iteration t lv e))))) \<and>
   (\<not> running e \<longrightarrow> run_loop ts lv e = Returned (cleanup e)) \<and>
   (run ts e = Returned e' \<or> run ts e = Propagated x e' \<longrightarrow>
      last_shown (trace e') = Some (replicate (length (pixels e')) (0, 0, 0)))"
proof (intro conjI impI)
  assume "run_loop ts lv e = Returned e' \<or> run_loop ts lv e = Propagated x e'"
  from run_loop_stopped_blank [OF this]
  show "\<exists>evs. trace e' = evs @ [Show (replicate (length (pixels e')) (0, 0, 0)), Deinit]"
    and "last_shown (trace e') = Some (replicate (length (pixels e')) (0, 0, 0))"
    and "pixels e' = replicate (length (pixels e')) (0, 0, 0)" and "\<not> running e'"
    by blast+
next
  assume "running e \<and> fst (run_program e (frame lv)) = None \<and> sigint t"
  then show "run_loop (t # rest) lv e = Returned (cleanup (snd (snd (iteration t lv e))))"
    using run_loop_interrupted by blast
next
  assume "\<not> running e"
  then show "run_loop ts lv e = Returned (cleanup e)" by (cases ts) simp_all
next
  assume "run ts e = Returned e' \<or> run ts e = Propagated x e'"
  then have "run_loop ts \<lparr>frame = 0, frame_times = []\<rparr> e = Returned e' \<or>
      run_loop ts \<lparr>frame = 0, frame_times = []\<rparr> e = Propagated x e'"
    by (simp add: run_def)
  from run_loop_stopped_blank [OF this]
  show "last_shown (trace e') = Some (replicate (length (pixels e')) (0, 0, 0))" by blast
qed

theorem shutdown_commits_blank_frame_witness:
  "running demo \<and> fst (run_program demo 0) = None \<and> sigint ctrl_c \<and>
   run [on_time, ctrl_c] demo = Returned (stopped_engine (run [on_time, ctrl_c] demo)) \<and>
   trace (stopped_engine (run [on_time, ctrl_c] demo)) =
     [Show [(255, 0, 0), (255, 0, 0)], Sleep (1 / 120),
      Show [(255, 0, 0), (255, 0, 0)], Sleep (1 / 120),
      Show [(0, 0, 0), (0, 0, 0)], Deinit] \<and>
   last_shown (trace (stopped_engine (run [on_time, ctrl_c] demo))) = Some [(0, 0, 0), (0, 0, 0)] \<and>
   \<not> running (cleanup demo) \<and>
   run_loop [on_time] \<lparr>frame = 0, frame_times = []\<rparr> (cleanup demo) =
     Returned (cleanup (cleanup demo))"
  using shutdown_commits_blank_frame
    [where ts = "[on_time, ctrl_c]" and lv = "\<lparr>frame = 0, frame_times = []\<rparr>" and e = demo
       and e' = "stopped_engine (run [on_time, ctrl_c] demo)" and t = ctrl_c and rest = "[]"]
    shutdown_commits_blank_frame
    [where ts = "[on_time]" and lv = "\<lparr>frame = 0, frame_times = []\<rparr>" and e = "cleanup demo"]
  by (simp add: run_def demo_def on_time_def ctrl_c_def run_program_def fill_red_def
      rate_limit_def iteration_def update_stats_def cleanup_def stopped_engine_def Let_def)

text \<open>
  Claim C9.  In every iteration whose program call does not raise, the frame is shown and
  then the loop asks \<open>time.sleep\<close> for \<open>max(0, 1/60 - frame_time)\<close>, where \<open>frame_time\<close> is
  the time measured for rendering and showing the frame (no call when that is zero).
\<close>

theorem sleep_is_remaining_interval:
  assumes "fst (run_program e (frame lv)) = None"
  shows "trace (snd (snd (iteration t lv e))) =
           trace e @ [Show (pixels (snd (snd (iteration t lv e))))] @ rate_limit (frame_time t) \<and>
         slept (rate_limit (frame_time t)) = max 0 (1 / 60 - frame_time t)"
proof -
  obtain e1 where r: "run_program e (frame lv) = (None, e1)"
    using assms by (cases "run_program e (frame lv)") auto
  show ?thesis
    by (simp add: iteration_completed [OF r] update_stats_keeps slept_rate_limit)
qed

theorem sleep_is_remaining_interval_witness:
  "fst (run_program demo 0) = None \<and>
   trace (snd (snd (iteration on_time \<lparr>frame = 0, frame_times = []\<rparr> demo))) =
     [Show [(255, 0, 0), (255, 0, 0)], Sleep (1 / 120)] \<and>
   slept (rate_limit (frame_time on_time)) = 1 / 120"
  using sleep_is_remaining_interval [of demo "\<lparr>frame = 0, frame_times = []\<rparr>" on_time]
  by (simp add: demo_def on_time_def run_program_def fill_red_def rate_limit_def iteration_def
      update_stats_def Let_def)

section \<open>Switching programs and updating the configuration\<close>

text \<open>
  Claim C10.  \<open>switch_program\<close> returns \<open>True\<close> exactly when the name is registered; then
  the active program and the \<open>current_program\<close> entry of the statistics become that name
  and nothing else changes.  When the name is not registered it returns \<open>False\<close> and the
  engine, its statistics included, is unchanged.
\<close>

theorem switch_program_iff:
  "(fst (switch_program name e) \<longleftrightarrow> name \<in> dom (programs e)) \<and>
   (name \<in> dom (programs e) \<longrightarrow>
      snd (switch_program name e) =
        e\<lparr>current_program := name, stats := (stats e)\<lparr>stats_current_program := name\<rparr>\<rparr>) \<and>
   (name \<notin> dom (programs e) \<longrightarrow> snd (switch_program name e) = e)"
  by (auto simp: switch_program_def split: option.splits)

theorem switch_program_iff_witness:
  "''broken'' \<in> dom (programs demo) \<and> fst (switch_program ''broken'' demo) \<and>
   current_program (snd (switch_program ''broken'' demo)) = ''broken'' \<and>
   stats_current_program (stats (snd (switch_program ''broken'' demo))) = ''broken'' \<and>
   ''waves'' \<notin> dom (programs demo) \<and> \<not> fst (switch_program ''waves'' demo) \<and>
   snd (switch_program ''waves'' demo) = demo"
  using switch_program_iff [of "''broken''" demo] switch_program_iff [of "''waves''" demo]
  by (simp add: demo_def)

text \<open>
  The loop never creates an attribute: a name that the object does not have stays
  unreadable, whatever the update holds.
\<close>

lemma set_known_unknown:
  "\<not> hasattr c k \<Longrightarrow> \<not> hasattr (snd (set_known setattr_error items c)) k"
proof (induction items arbitrary: c)
  case Nil
  then show ?case by simp
next
  case (Cons kv items)
  obtain key val where kv: "kv = (key, val)" by (cases kv)
  show ?case
  proof (cases "hasattr c key \<and> setattr_error key val = None")
    case True
    then have "\<not> hasattr (c(key \<mapsto> val)) k"
      using Cons.prems by (auto simp: hasattr_def split: option.splits)
    then have "\<not> hasattr (snd (set_known setattr_error items (c(key \<mapsto> val)))) k"
      by (rule Cons.IH)
    then show ?thesis
      unfolding kv using True by simp
  next
    case False
    then show ?thesis
      unfolding kv using Cons.IH [OF Cons.prems] Cons.prems by (auto split: option.splits)
  qed
qed


text \<open>
  An assignment that raises ends the call with that exception, before the later fields
  and before the brightness of the strip.
\<close>

lemma update_config_assignment_raises:
  assumes "hasattr (config e) key" and "setattr_error key val = Some err"
  shows "update_config setattr_error ((key, val) # items) e = (Some err, e)"
  using assms by (simp add: update_config_def)




section \<open>Properties of the colour functions\<close>

lemma py_mod_range: "0 < b \<Longrightarrow> 0 \<le> py_mod a b \<and> py_mod a b < b"
proof -
  assume b: "0 < b"
  define q :: real where "q = of_int \<lfloor>a / b\<rfloor>"
  have "q \<le> a / b" "a / b < q + 1"
    unfolding q_def by linarith+
  then have "b * q \<le> a" "a < b * (q + 1)"
    using b by (simp_all add: field_simps)
  then show ?thesis
    unfolding py_mod_def q_def [symmetric] by (simp add: algebra_simps)
qed

lemma py_int_channel:
  "0 \<le> u \<Longrightarrow> u \<le> 1 \<Longrightarrow> 0 \<le> py_int (u * 255) \<and> py_int (u * 255) \<le> 255"
proof -
  assume u: "0 \<le> u" "u \<le> 1"
  then have "0 \<le> u * 255" "u * 255 \<le> 255" by simp_all
  then show ?thesis
    by (simp add: py_int_def floor_le_iff le_floor_iff)
qed

lemma sector_weight: "0 \<le> 1 - \<bar>py_mod t 2 - 1\<bar> \<and> 1 - \<bar>py_mod t 2 - 1\<bar> \<le> 1"
  using py_mod_range [of 2 t] by (simp add: abs_le_iff)

text \<open>For any hue, since the hue is first reduced modulo 360.\<close>

lemma hsv_to_rgb_any_hue:
  assumes "0 \<le> s" "s \<le> 1" "0 \<le> v" "v \<le> 1"
  shows "case hsv_to_rgb h s v of (r, g, b) \<Rightarrow> channel_ok r \<and> channel_ok g \<and> channel_ok b"
proof -
  define c where "c = v * s"
  define w where "w = 1 - \<bar>py_mod (py_mod h 360 / 60) 2 - 1\<bar>"
  define m where "m = v - c"
  have c: "0 \<le> c" "c \<le> v"
    using assms by (simp_all add: c_def mult_left_le)
  have w: "0 \<le> w" "w \<le> 1"
    using sector_weight [of "py_mod h 360 / 60"] by (simp_all add: w_def)
  have x: "0 \<le> c * w" "c * w \<le> c"
    using c w by (simp_all add: mult_left_le)
  have m: "0 \<le> m" "m \<le> 1" "c + m = v" "c * w + m \<le> 1" "0 \<le> c * w + m"
    using c x assms by (simp_all add: m_def)
  have ok: "channel_ok (py_int ((c + m) * 255))" "channel_ok (py_int ((c * w + m) * 255))"
    "channel_ok (py_int ((0 + m) * 255))"
    unfolding channel_ok_def
    using py_int_channel [of "c + m"] py_int_channel [of "c * w + m"] py_int_channel [of m] m assms
    by simp_all
  show ?thesis
    unfolding hsv_to_rgb_def Let_def c_def [symmetric] w_def [symmetric] m_def [symmetric]
    using ok by simp
qed

text \<open>
  Claim C3.  For every hue in \<open>[0,360)\<close> and every saturation and value in \<open>[0,1]\<close>, each
  of the three components of \<open>hsv_to_rgb\<close> is in \<open>[0,255]\<close>.
\<close>

theorem hsv_to_rgb_in_range:
  assumes "0 \<le> h" "h < 360" "0 \<le> s" "s \<le> 1" "0 \<le> v" "v \<le> 1"
  shows "case hsv_to_rgb h s v of (r, g, b) \<Rightarrow>
           0 \<le> r \<and> r \<le> 255 \<and> 0 \<le> g \<and> g \<le> 255 \<and> 0 \<le> b \<and> b \<le> 255"
  using hsv_to_rgb_any_hue [OF assms(3-6), of h] by (simp add: channel_ok_def split: prod.splits)

theorem hsv_to_rgb_in_range_witness:
  "(0::real) \<le> 200 \<and> (200::real) < 360 \<and> (0::real) \<le> 1 / 2 \<and> (1 / 2::real) \<le> 1 \<and>
   (0::real) \<le> 1 \<and> (1::real) \<le> 1 \<and> hsv_to_rgb 200 (1 / 2) 1 = (127, 212, 255)"
  using hsv_to_rgb_in_range [of 200 "1 / 2" 1]
  by (simp add: hsv_to_rgb_def py_mod_def py_int_def Let_def)

text \<open>
  The method of the engine stays in range whenever the library function it scales returns
  components in \<open>[0,1]\<close>.
\<close>

lemma CosmicLED_hsv_to_rgb_in_range:
  assumes "colorsys h s v = (r, g, b)" "0 \<le> r" "r \<le> 1" "0 \<le> g" "g \<le> 1" "0 \<le> b" "b \<le> 1"
  shows "case CosmicLED_hsv_to_rgb colorsys h s v of (r', g', b') \<Rightarrow>
           channel_ok r' \<and> channel_ok g' \<and> channel_ok b'"
  using assms py_int_channel by (simp add: CosmicLED_hsv_to_rgb_def channel_ok_def)

lemma gamma_correct_channel:
  assumes "0 < gamma" "0 \<le> a"
  shows "gamma_correct a gamma = Some (255 * (a / 255) powr gamma)"
  using assms by (cases "a = 0") (simp_all add: gamma_correct_def float_pow_def)

text \<open>
  Claim C6.  For a fixed \<open>gamma > 0\<close>, \<open>gamma_correct\<close> is \<open>255 * (channel/255)^gamma\<close> on
  \<open>[0,255]\<close>, it is monotonically non-decreasing there, its results are in \<open>[0,255]\<close>,
  \<open>gamma_correct(0, gamma) = 0\<close> and \<open>gamma_correct(255, 1) = 255\<close>.
\<close>

theorem gamma_correct_monotone:
  assumes "0 < gamma" "0 \<le> a" "a \<le> b" "b \<le> 255"
  shows "gamma_correct a gamma = Some (255 * (a / 255) powr gamma) \<and>
         gamma_correct b gamma = Some (255 * (b / 255) powr gamma) \<and>
         255 * (a / 255) powr gamma \<le> 255 * (b / 255) powr gamma \<and>
         0 \<le> 255 * (a / 255) powr gamma \<and> 255 * (b / 255) powr gamma \<le> 255 \<and>
         gamma_correct 0 gamma = Some 0 \<and> gamma_correct 255 1 = Some 255"
proof -
  have b0: "0 \<le> b" using assms by simp
  have mono: "(a / 255) powr gamma \<le> (b / 255) powr gamma"
    using assms by (intro powr_mono2) simp_all
  have "(b / 255) powr gamma \<le> 1 powr gamma"
    using assms b0 by (intro powr_mono2) simp_all
  then have top: "(b / 255) powr gamma \<le> 1" by simp
  show ?thesis
    using mono top assms
    by (simp add: gamma_correct_channel [OF assms(1,2)] gamma_correct_channel [OF assms(1) b0]
        gamma_correct_def float_pow_def)
qed

theorem gamma_correct_monotone_witness:
  "(0::real) < 2 \<and> (0::real) \<le> 51 \<and> (51::real) \<le> 102 \<and> (102::real) \<le> 255 \<and>
   gamma_correct 51 2 = Some (51 / 5) \<and> gamma_correct 102 2 = Some (204 / 5)"
  using gamma_correct_monotone [of 2 51 102]
  by (simp add: gamma_correct_def float_pow_def power2_eq_square)

section \<open>Properties of the coordinate mapper\<close>

lemma xy_index_bound:
  assumes "x < width g" "y < height g"
  shows "y * width g + x < pixel_count g"
proof -
  have "y * width g + x < y * width g + width g" using assms by simp
  also have "\<dots> = Suc y * width g" by simp
  also have "\<dots> \<le> height g * width g" using assms by (intro mult_le_mono1) simp
  finally show ?thesis by (simp add: pixel_count_def mult.commute)
qed

lemma xy_roundtrip:
  assumes "x < width g" "y < height g"
  shows "\<exists>i. xy_to_index x y g = Some i \<and> i < pixel_count g \<and> index_to_xy i g = Some (x, y)"
proof (cases "wiring g")
  case Progressive
  then show ?thesis
    using assms xy_index_bound [OF assms]
    by (simp add: xy_to_index_def index_to_xy_def Let_def)
next
  case Serpentine
  let ?c = "if even y then x else width g - 1 - x"
  have c: "?c < width g" using assms by auto
  have "y * width g + ?c < pixel_count g" by (rule xy_index_bound [OF c assms(2)])
  moreover have "(y * width g + ?c) div width g = y" "(y * width g + ?c) mod width g = ?c"
    using c by simp_all
  moreover have "width g - 1 - (width g - 1 - x) = x" using assms by simp
  ultimately show ?thesis
    using assms Serpentine
    by (simp add: xy_to_index_def index_to_xy_def Let_def)
qed

lemma index_roundtrip:
  assumes "i < pixel_count g"
  shows "\<exists>x y. index_to_xy i g = Some (x, y) \<and> x < width g \<and> y < height g \<and>
           xy_to_index x y g = Some i"
proof -
  have w: "0 < width g" using assms by (cases "width g") (simp_all add: pixel_count_def)
  have y: "i div width g < height g"
    using assms w by (simp add: pixel_count_def less_mult_imp_div_less mult.commute)
  have c: "i mod width g < width g" using w by simp
  have col: "width g - 1 - (width g - 1 - i mod width g) = i mod width g" using c by simp
  have c': "width g - 1 - i mod width g < width g" using w by simp
  show ?thesis
    using assms y c c' col
    by (cases "wiring g") (simp_all add: xy_to_index_def index_to_xy_def Let_def)
qed

text \<open>
  Claim C4.  For every geometry and both wirings, \<open>index_to_xy\<close> undoes \<open>xy_to_index\<close> on
  every coordinate inside the matrix and \<open>xy_to_index\<close> undoes \<open>index_to_xy\<close> on every
  index below the pixel count: the two are bijections between \<open>[0,width) \<times> [0,height)\<close>
  and \<open>[0,pixel_count)\<close>, inverse to each other.
\<close>

theorem coordinate_mapping_bijection:
  "(x < width g \<and> y < height g \<longrightarrow>
      (\<exists>i. xy_to_index x y g = Some i \<and> i < pixel_count g \<and> index_to_xy i g = Some (x, y))) \<and>
   (i < pixel_count g \<longrightarrow>
      (\<exists>x y. index_to_xy i g = Some (x, y) \<and> x < width g \<and> y < height g \<and>
         xy_to_index x y g = Some i)) \<and>
   bij_betw (\<lambda>(x, y). the (xy_to_index x y g)) ({..<width g} \<times> {..<height g}) {..<pixel_count g} \<and>
   bij_betw (\<lambda>i. the (index_to_xy i g)) {..<pixel_count g} ({..<width g} \<times> {..<height g})"
proof -
  let ?f = "\<lambda>(x, y). the (xy_to_index x y g)"
  let ?h = "\<lambda>i. the (index_to_xy i g)"
  let ?A = "{..<width g} \<times> {..<height g}"
  let ?B = "{..<pixel_count g}"
  have fA: "?f p \<in> ?B \<and> ?h (?f p) = p" if "p \<in> ?A" for p
  proof -
    obtain x y where p: "p = (x, y)" by (cases p)
    then show ?thesis using that xy_roundtrip [of x g y] by auto
  qed
  have hB: "?h i \<in> ?A \<and> ?f (?h i) = i" if "i \<in> ?B" for i
    using that index_roundtrip [of i g] by auto
  have l: "\<forall>p \<in> ?A. ?h (?f p) = p" using fA by blast
  have r: "\<forall>i \<in> ?B. ?f (?h i) = i" using hB by blast
  have fi: "?f ` ?A \<subseteq> ?B" using fA by blast
  have hi: "?h ` ?B \<subseteq> ?A" using hB by blast
  have "bij_betw ?f ?A ?B"
    by (rule bij_betw_byWitness [OF l r fi hi])
  moreover have "bij_betw ?h ?B ?A"
    by (rule bij_betw_byWitness [OF r l hi fi])
  ultimately show ?thesis
    using xy_roundtrip [of x g y] index_roundtrip [of i g] by blast
qed

theorem coordinate_mapping_bijection_witness:
  "(3::nat) < width panel \<and> (1::nat) < height panel \<and> xy_to_index 3 1 panel = Some 4 \<and>
   (7::nat) < pixel_count panel \<and> index_to_xy 7 panel = Some (0, 1) \<and>
   index_to_xy 4 panel = Some (3, 1) \<and> xy_to_index 0 1 panel = Some 7"
  using coordinate_mapping_bijection [of 3 panel 1 7]
  by (simp add: panel_def xy_to_index_def index_to_xy_def pixel_count_def)

section \<open>Patterns and the bounds of the buffer\<close>

lemma assign_in_buffer:
  "in_buffer (length (fst buf)) i \<Longrightarrow> assign buf i c = Inr ((fst buf)[nat i := c], snd buf @ [i])"
  by (simp add: assign_def setitem_def in_buffer_def Let_def)

lemma cosmic_loop:
  assumes "\<forall>(x, y) \<in> set cs. mapper x y \<noteq> None"
  shows "\<exists>px. for_each (cosmic_pixel mapper colour) cs (px0, log0) =
            Inr (px, log0 @ filter (in_buffer (length px0)) (map (\<lambda>(x, y). the (mapper x y)) cs)) \<and>
          length px = length px0"
  using assms
proof (induction cs arbitrary: px0 log0)
  case Nil
  then show ?case by simp
next
  case (Cons xy cs)
  obtain x y where xy: "xy = (x, y)" by (cases xy)
  obtain idx where idx: "mapper x y = Some idx" using Cons.prems xy by auto
  have rest: "\<forall>(x, y) \<in> set cs. mapper x y \<noteq> None" using Cons.prems by simp
  show ?case
  proof (cases "in_buffer (length px0) idx")
    case True
    have step: "cosmic_pixel mapper colour (px0, log0) (x, y) = Inr (px0[nat idx := colour x y], log0 @ [idx])"
      using True assign_in_buffer [of "(px0, log0)" idx] 
      by (simp add: cosmic_pixel_def idx in_buffer_def)
    obtain px where "for_each (cosmic_pixel mapper colour) cs (px0[nat idx := colour x y], log0 @ [idx]) =
        Inr (px, (log0 @ [idx]) @ filter (in_buffer (length (px0[nat idx := colour x y])))
               (map (\<lambda>(x, y). the (mapper x y)) cs)) \<and>
        length px = length (px0[nat idx := colour x y])"
      using Cons.IH [OF rest] by blast
    then show ?thesis
      using True by (simp add: step xy idx)
  next
    case False
    have step: "cosmic_pixel mapper colour (px0, log0) (x, y) = Inr (px0, log0)"
      using False by (auto simp add: cosmic_pixel_def idx in_buffer_def)
    show ?thesis
      using Cons.IH [OF rest, of px0 log0] False by (simp add: step xy idx)
  qed
qed

lemma waves_loop:
  assumes "\<forall>(x, y) \<in> set cs. \<forall>i. mapper x y = Some i \<longrightarrow> in_buffer (length px0) i"
  shows "\<exists>px. for_each (waves_pixel mapper colour) cs (px0, log0) =
            Inr (px, log0 @ List.map_filter (\<lambda>(x, y). mapper x y) cs) \<and>
          length px = length px0"
  using assms
proof (induction cs arbitrary: px0 log0)
  case Nil
  then show ?case by (simp add: List.map_filter_simps)
next
  case (Cons xy cs)
  obtain x y where xy: "xy = (x, y)" by (cases xy)
  have rest: "\<forall>(x, y) \<in> set cs. \<forall>i. mapper x y = Some i \<longrightarrow> in_buffer (length px0) i"
    using Cons.prems by simp
  show ?case
  proof (cases "mapper x y")
    case None
    have step: "waves_pixel mapper colour (px0, log0) (x, y) = Inr (px0, log0)"
      by (simp add: waves_pixel_def None)
    show ?thesis
      using Cons.IH [OF rest, of log0] by (simp add: step xy None List.map_filter_simps)
  next
    case (Some i)
    have i: "in_buffer (length px0) i" using Cons.prems xy Some by auto
    have step: "waves_pixel mapper colour (px0, log0) (x, y) = Inr (px0[nat i := colour x y], log0 @ [i])"
      using assign_in_buffer [of "(px0, log0)" i] i by (simp add: waves_pixel_def Some)
    let ?px1 = "px0[nat i := colour x y]"
    have rest': "\<forall>(a, b) \<in> set cs. \<forall>j. mapper a b = Some j \<longrightarrow> in_buffer (length ?px1) j"
      using rest by simp
    show ?thesis
      using Cons.IH [OF rest', of "log0 @ [i]"] by (simp add: step xy Some List.map_filter_simps)
  qed
qed

text \<open>
  Claim C7, as amended.  The cosmic pattern assigns only to indices inside the buffer: when
  the mapping returns integers, an integer outside \<open>[0, length)\<close> is skipped, the
  frame does not fail and the buffer keeps its length.  The waves pattern skips a
  coordinate exactly when the mapping returns \<open>None\<close> and assigns to every other index it
  gets: when every index that the mapping returns for the coordinates of the matrix is inside
  the buffer, the frame does not fail, the buffer keeps its length and every index
  assigned to is inside \<open>[0, length)\<close>.
\<close>

theorem patterns_write_inside_buffer:
  "((\<forall>(x, y) \<in> set (scan w h). mapper x y \<noteq> None) \<longrightarrow>
      (\<exists>px. cosmic_animate w h mapper colour buffer =
               Inr (px, filter (in_buffer (length buffer)) (map (\<lambda>(x, y). the (mapper x y)) (scan w h))) \<and>
             length px = length buffer)) \<and>
   ((\<forall>(x, y) \<in> set (scan w h). \<forall>i. mapper x y = Some i \<longrightarrow> in_buffer (length buffer) i) \<longrightarrow>
      (\<exists>px. waves_animate w h mapper colour buffer =
               Inr (px, List.map_filter (\<lambda>(x, y). mapper x y) (scan w h)) \<and>
             length px = length buffer \<and>
             (\<forall>i \<in> set (List.map_filter (\<lambda>(x, y). mapper x y) (scan w h)). in_buffer (length buffer) i)))"
proof (intro conjI impI)
  assume "\<forall>(x, y) \<in> set (scan w h). mapper x y \<noteq> None"
  from cosmic_loop [OF this, of colour buffer "[]"]
  show "\<exists>px. cosmic_animate w h mapper colour buffer =
               Inr (px, filter (in_buffer (length buffer)) (map (\<lambda>(x, y). the (mapper x y)) (scan w h))) \<and>
             length px = length buffer"
    by (simp add: cosmic_animate_def)
next
  assume a: "\<forall>(x, y) \<in> set (scan w h). \<forall>i. mapper x y = Some i \<longrightarrow> in_buffer (length buffer) i"
  have inside: "\<forall>i \<in> set (List.map_filter (\<lambda>(x, y). mapper x y) (scan w h)). in_buffer (length buffer) i"
    using a by (auto simp: List.map_filter_def)
  from waves_loop [OF a, of colour "[]"] inside
  show "\<exists>px. waves_animate w h mapper colour buffer =
               Inr (px, List.map_filter (\<lambda>(x, y). mapper x y) (scan w h)) \<and>
             length px = length buffer \<and>
             (\<forall>i \<in> set (List.map_filter (\<lambda>(x, y). mapper x y) (scan w h)). in_buffer (length buffer) i)"
    by (simp add: waves_animate_def)
qed

lemma scan_2_1: "scan 2 1 = [(0, 0), (1, 0)]"
  by (simp add: scan_def upto.simps)

theorem patterns_write_inside_buffer_witness:
  "scan 2 1 = [(0, 0), (1, 0)] \<and>
   far_mapper 0 0 = Some 5 \<and> far_mapper 1 0 = Some 1 \<and>
   cosmic_animate 2 1 far_mapper grey [(0, 0, 0), (0, 0, 0)] = Inr ([(0, 0, 0), (9, 9, 9)], [1]) \<and>
   sparse_mapper 0 0 = None \<and> sparse_mapper 1 0 = Some 0 \<and> in_buffer 2 0 \<and>
   waves_animate 2 1 sparse_mapper grey [(0, 0, 0), (0, 0, 0)] = Inr ([(9, 9, 9), (0, 0, 0)], [0])"
  using patterns_write_inside_buffer [of 2 1 far_mapper grey "[(0, 0, 0), (0, 0, 0)]"]
    patterns_write_inside_buffer [of 2 1 sparse_mapper grey "[(0, 0, 0), (0, 0, 0)]"]
  by (simp add: scan_2_1 far_mapper_def sparse_mapper_def grey_def in_buffer_def
      cosmic_animate_def waves_animate_def cosmic_pixel_def waves_pixel_def assign_def setitem_def)

text \<open>
  Claim C7 as stated fails: the waves pattern does not skip an integer index that is out
  of range (the frame fails with \<open>IndexError\<close>, or a negative index is assigned to from
  the end of the buffer), and the cosmic pattern does not skip a \<open>None\<close> result (the
  comparison fails with \<open>TypeError\<close>).
\<close>

theorem patterns_skip_counterexample:
  "waves_animate 2 1 shifted_mapper grey [(0, 0, 0), (0, 0, 0)] = Inl IndexError \<and>
   waves_animate 2 1 negative_mapper grey [(0, 0, 0), (0, 0, 0)] =
     Inr ([(9, 9, 9), (9, 9, 9)], [- 2, - 1]) \<and>
   cosmic_animate 2 1 none_mapper grey [(0, 0, 0), (0, 0, 0)] = Inl TypeError"
  by (simp add: scan_2_1 shifted_mapper_def negative_mapper_def none_mapper_def grey_def
      cosmic_animate_def waves_animate_def cosmic_pixel_def waves_pixel_def assign_def setitem_def)

end
